theory Spec2Isabelle
  imports Complex_Main "HOL-Library.Sublist"
begin

section \<open>The DSP module: signals, generator, mixers and the on-the-fly convolver\<close>

text \<open>
  A shallow embedding of the Python module \<^verbatim>\<open>DSP/__init__.py\<close>.
  Conventions of the embedding:
  \<^item> a numpy array of dtype \<^verbatim>\<open>float\<close> is a list of reals, one of dtype \<^verbatim>\<open>complex\<close> a list
    of complex numbers; arithmetic is the exact arithmetic of \<^typ>\<open>real\<close> and
    \<^typ>\<open>complex\<close>, so rounding is outside the model;
  \<^item> an exception is the left summand of a result of type \<open>py_error + 'a\<close>;
  \<^item> attributes of an object are the fields of a record, and a method takes the object
    and returns the updated object next to its return value;
  \<^item> messages logged at level WARNING and above are returned as a list, in the order
    in which they are emitted; DEBUG and INFO messages are not modelled.
\<close>

subsection \<open>Exceptions and numpy primitives\<close>

datatype py_error = NameError | ValueError | ZeroDivisionError | IndexError | AttributeError

text \<open>
  Elementwise binary operation of numpy on two one-dimensional arrays: equal shapes are
  combined index by index, an array of length one is broadcast against the other, any
  other pair of shapes raises \<^verbatim>\<open>ValueError\<close>.
\<close>

definition np_binop :: "('a \<Rightarrow> 'b \<Rightarrow> 'c) \<Rightarrow> 'a list \<Rightarrow> 'b list \<Rightarrow> py_error + 'c list" where
  "np_binop f xs ys =
     (if length xs = length ys then Inr (map2 f xs ys)
      else if length xs = 1 then Inr (map (f (hd xs)) ys)
      else if length ys = 1 then Inr (map (\<lambda>x. f x (hd ys)) xs)
      else Inl ValueError)"

text \<open>
  Assignment of a whole array into a destination of \<open>n\<close> elements
  (\<^verbatim>\<open>obj.real = I\<close>): the source must have the destination's shape or length one.
\<close>

definition np_assign :: "nat \<Rightarrow> 'a list \<Rightarrow> py_error + 'a list" where
  "np_assign n src =
     (if length src = n then Inr src
      else if length src = 1 then Inr (replicate n (hd src))
      else Inl ValueError)"

text \<open>Item assignment \<^verbatim>\<open>a[i] = v\<close> with a non-negative index.\<close>

definition np_setitem :: "'a list \<Rightarrow> nat \<Rightarrow> 'a \<Rightarrow> py_error + 'a list" where
  "np_setitem xs i v = (if i < length xs then Inr (xs[i := v]) else Inl IndexError)"

text \<open>Python's \<^verbatim>\<open>a % b\<close> on non-negative integers.\<close>

definition py_mod :: "nat \<Rightarrow> nat \<Rightarrow> py_error + nat" where
  "py_mod a b = (if b = 0 then Inl ZeroDivisionError else Inr (a mod b))"

subsection \<open>OTFConvolver\<close>

text \<open>
  The attributes of an \<^verbatim>\<open>OTFConvolver\<close>: \<open>conv_F\<close>, \<open>conv_K\<close> and \<open>conv_M\<close> are
  \<^verbatim>\<open>self.F\<close>, \<^verbatim>\<open>self.K\<close> and \<^verbatim>\<open>self.M\<close> (the latter is set only when data are given).
\<close>

record OTFConvolver =
  conv_F :: "complex list"
  conv_K :: nat
  circ_buf :: "complex list"
  filtered :: "complex list"
  oldest :: nat
  data :: "complex list"
  conv_M :: "nat option"

text \<open>
  \<^verbatim>\<open>convolution_step\<close>: the sum of the kernel times the buffer read from \<open>oldest\<close> on
  (\<^verbatim>\<open>NP.append(circ_buf[oldest:], circ_buf[:oldest])\<close>), appended to \<open>filtered\<close>; then
  \<open>oldest\<close> is advanced modulo \<open>K\<close> and the sample is stored at the new \<open>oldest\<close>.
\<close>

definition convolution_step :: "OTFConvolver \<Rightarrow> complex \<Rightarrow> py_error + complex \<times> OTFConvolver" where
  "convolution_step self sample =
     (case np_binop (*) (conv_F self)
             (drop (oldest self) (circ_buf self) @ take (oldest self) (circ_buf self)) of
        Inl e \<Rightarrow> Inl e
      | Inr prods \<Rightarrow>
          let sumprod = sum_list prods;
              self1 = self\<lparr>filtered := filtered self @ [sumprod]\<rparr>
          in (case py_mod (oldest self1 + 1) (conv_K self1) of
                Inl e \<Rightarrow> Inl e
              | Inr o' \<Rightarrow>
                  (case np_setitem (circ_buf self1) o' sample of
                     Inl e \<Rightarrow> Inl e
                   | Inr buf \<Rightarrow> Inr (sumprod, self1\<lparr>oldest := o', circ_buf := buf\<rparr>))))"

text \<open>
  \<^verbatim>\<open>next\<close>: the sample is appended to \<open>data\<close>; with \<open>idx = len(data)\<close>, if \<open>idx < K\<close> the
  sample is stored at \<open>circ_buf[idx]\<close>, \<open>0.\<close> is appended to \<open>filtered\<close> and \<^verbatim>\<open>None\<close> is
  returned; otherwise the result of \<open>convolution_step\<close> is appended to \<open>filtered\<close> (a
  second time) and returned as \<open>filtered[-1]\<close>.
\<close>

definition OTFConvolver_next :: "OTFConvolver \<Rightarrow> complex \<Rightarrow> py_error + complex option \<times> OTFConvolver" where
  "OTFConvolver_next self sample =
     (let self1 = self\<lparr>data := data self @ [sample]\<rparr>;
          idx = length (data self1)
      in if idx < conv_K self1 then
           (case np_setitem (circ_buf self1) idx sample of
              Inl e \<Rightarrow> Inl e
            | Inr buf \<Rightarrow>
                Inr (None, self1\<lparr>circ_buf := buf, filtered := filtered self1 @ [0]\<rparr>))
         else
           (case convolution_step self1 sample of
              Inl e \<Rightarrow> Inl e
            | Inr (r, self2) \<Rightarrow>
                let self3 = self2\<lparr>filtered := filtered self2 @ [r]\<rparr>
                in Inr (Some (last (filtered self3)), self3)))"

text \<open>
  The body of the loop of \<^verbatim>\<open>__init__\<close> over \<open>range(M)\<close> is
  \<^verbatim>\<open>self.filtered.append(self.convolution_step(sample))\<close>. The name \<^verbatim>\<open>sample\<close> is bound
  neither in \<^verbatim>\<open>__init__\<close> (whose names are \<open>self\<close>, \<open>FIRfilter\<close>, \<open>data\<close>, \<open>midx\<close>) nor
  in the module, so evaluating the argument raises \<^verbatim>\<open>NameError\<close> before
  \<open>convolution_step\<close> is entered.
\<close>

fun init_loop :: "OTFConvolver \<Rightarrow> nat list \<Rightarrow> py_error + OTFConvolver" where
  "init_loop self [] = Inr self"
| "init_loop self (midx # rest) = Inl NameError"

text \<open>
  \<^verbatim>\<open>__init__(FIRfilter, data=None)\<close>. The test \<^verbatim>\<open>if data:\<close> is false for \<^verbatim>\<open>None\<close> and for
  an empty list. No test is made on the length of the kernel.
\<close>

definition OTFConvolver_init :: "complex list \<Rightarrow> complex list option \<Rightarrow> py_error + OTFConvolver" where
  "OTFConvolver_init FIRfilter dat =
     (let self = \<lparr>conv_F = FIRfilter, conv_K = length FIRfilter,
                  circ_buf = replicate (length FIRfilter) 0, filtered = [], oldest = 0,
                  data = [], conv_M = None\<rparr>
      in case dat of
           None \<Rightarrow> Inr self
         | Some d \<Rightarrow>
             if d \<noteq> [] then
               init_loop (self\<lparr>data := d, conv_M := Some (length d)\<rparr>) [0..<length d]
             else Inr self)"

text \<open>A sequence of calls of \<^verbatim>\<open>next\<close> on one convolver, stopping at the first exception.\<close>

fun next_calls :: "OTFConvolver \<Rightarrow> complex list \<Rightarrow> py_error + OTFConvolver" where
  "next_calls self [] = Inr self"
| "next_calls self (x # xs) =
     (case OTFConvolver_next self x of
        Inl e \<Rightarrow> Inl e
      | Inr (r, self') \<Rightarrow> next_calls self' xs)"

subsection \<open>DigitalSignal\<close>

text \<open>
  A numpy array is of dtype \<^verbatim>\<open>float\<close> or \<^verbatim>\<open>complex\<close>; other dtypes are outside the
  data model of the module.
\<close>

datatype ndarray = FloatArr "real list" | ComplexArr "complex list"

fun ndarray_len :: "ndarray \<Rightarrow> nat" where
  "ndarray_len (FloatArr xs) = length xs"
| "ndarray_len (ComplexArr zs) = length zs"

fun is_float :: "ndarray \<Rightarrow> bool" where
  "is_float (FloatArr xs) = True"
| "is_float (ComplexArr zs) = False"

fun is_complex :: "ndarray \<Rightarrow> bool" where
  "is_complex (FloatArr xs) = False"
| "is_complex (ComplexArr zs) = True"

text \<open>The slice \<^verbatim>\<open>a[:n]\<close>, and the attributes \<^verbatim>\<open>a.real\<close> and \<^verbatim>\<open>a.imag\<close>.\<close>

fun ndarray_take :: "nat \<Rightarrow> ndarray \<Rightarrow> ndarray" where
  "ndarray_take n (FloatArr xs) = FloatArr (take n xs)"
| "ndarray_take n (ComplexArr zs) = ComplexArr (take n zs)"

fun ndarray_real :: "ndarray \<Rightarrow> real list" where
  "ndarray_real (FloatArr xs) = xs"
| "ndarray_real (ComplexArr zs) = map Re zs"

fun ndarray_imag :: "ndarray \<Rightarrow> real list" where
  "ndarray_imag (FloatArr xs) = map (\<lambda>x. 0) xs"
| "ndarray_imag (ComplexArr zs) = map Im zs"

text \<open>
  The product \<^verbatim>\<open>a * b\<close> of two arrays: the result is of dtype \<^verbatim>\<open>float\<close> when both are,
  and of dtype \<^verbatim>\<open>complex\<close> otherwise.
\<close>

fun ndarray_mul :: "ndarray \<Rightarrow> ndarray \<Rightarrow> py_error + ndarray" where
  "ndarray_mul (FloatArr xs) (FloatArr ys) =
     (case np_binop (*) xs ys of Inl e \<Rightarrow> Inl e | Inr ps \<Rightarrow> Inr (FloatArr ps))"
| "ndarray_mul (FloatArr xs) (ComplexArr ws) =
     (case np_binop (\<lambda>x w. complex_of_real x * w) xs ws of
        Inl e \<Rightarrow> Inl e | Inr ps \<Rightarrow> Inr (ComplexArr ps))"
| "ndarray_mul (ComplexArr zs) (FloatArr ys) =
     (case np_binop (\<lambda>z y. z * complex_of_real y) zs ys of
        Inl e \<Rightarrow> Inl e | Inr ps \<Rightarrow> Inr (ComplexArr ps))"
| "ndarray_mul (ComplexArr zs) (ComplexArr ws) =
     (case np_binop (*) zs ws of Inl e \<Rightarrow> Inl e | Inr ps \<Rightarrow> Inr (ComplexArr ps))"

text \<open>
  A \<^verbatim>\<open>DigitalSignal\<close> is an array with the attribute \<^verbatim>\<open>info\<close>; \<open>info_mode\<close> is
  \<^verbatim>\<open>info["mode"]\<close>. The entries of \<^verbatim>\<open>info\<close> that record the components of a generated
  signal are not modelled.
\<close>

record DigitalSignal =
  samples :: ndarray
  info_mode :: string

text \<open>
  \<^verbatim>\<open>DigitalSignal.__new__(M, I, Q)\<close> without noise (\<^verbatim>\<open>rms=None\<close>). \<open>I\<close> and \<open>Q\<close> are arrays
  of dtype \<^verbatim>\<open>float\<close> or absent. With both present the new array has
  \<open>M = min(n_I, n_Q)\<close> elements, and then \<^verbatim>\<open>obj.real = I\<close>, \<^verbatim>\<open>obj.imag = NP.zeros(n_I)\<close>
  and \<^verbatim>\<open>obj.imag = Q\<close> are executed, in this order, with \<open>I\<close> and \<open>Q\<close> as they were given.
\<close>

definition DigitalSignal_new :: "nat \<Rightarrow> real list option \<Rightarrow> real list option \<Rightarrow> py_error + DigitalSignal" where
  "DigitalSignal_new M I Q =
     (case I of
        Some i \<Rightarrow>
          (case Q of
             Some q \<Rightarrow>
               (let n_I = length i; n_Q = length q;
                    M' = (if n_Q = n_I then n_I else min n_I n_Q)
                in case np_assign M' i of
                     Inl e \<Rightarrow> Inl e
                   | Inr re \<Rightarrow>
                       (case np_assign M' (replicate n_I (0::real)) of
                          Inl e \<Rightarrow> Inl e
                        | Inr im0 \<Rightarrow>
                            (case np_assign M' q of
                               Inl e \<Rightarrow> Inl e
                             | Inr im \<Rightarrow>
                                 Inr \<lparr>samples = ComplexArr (map2 Complex re im),
                                      info_mode = ''complex''\<rparr>)))
           | None \<Rightarrow>
               (case np_assign (length i) i of
                  Inl e \<Rightarrow> Inl e
                | Inr re \<Rightarrow> Inr \<lparr>samples = FloatArr re, info_mode = ''real''\<rparr>))
      | None \<Rightarrow>
          (case Q of
             Some q \<Rightarrow> Inl ValueError
           | None \<Rightarrow> Inr \<lparr>samples = ComplexArr (replicate M 0), info_mode = ''complex''\<rparr>))"

subsection \<open>Mixers\<close>

text \<open>
  The attribute \<^verbatim>\<open>IF\<close> of a mixer object: \<open>None\<close> when the attribute was never assigned,
  \<open>Some None\<close> when it holds \<^verbatim>\<open>None\<close>, \<open>Some (Some s)\<close> when it holds a signal.
\<close>

record Mixer =
  mixer_IF :: "DigitalSignal option option"

type_synonym log = "string list"

text \<open>The truth value of what \<^verbatim>\<open>_check_inputs\<close> returns: \<^verbatim>\<open>True\<close>, \<^verbatim>\<open>False\<close> or \<^verbatim>\<open>None\<close>.\<close>

fun truthy :: "bool option \<Rightarrow> bool" where
  "truthy None = False"
| "truthy (Some b) = b"

definition BasicMixer_mixed :: "ndarray \<Rightarrow> ndarray \<Rightarrow> log \<times> (py_error + DigitalSignal)" where
  "BasicMixer_mixed signal LO =
     (let n_signal = ndarray_len signal; n_LO = ndarray_len LO;
          (lg, signal', LO') =
            (if n_signal = n_LO then ([], signal, LO)
             else if n_signal > n_LO then
               ([''mixed: signal truncated to length of LO''], ndarray_take n_LO signal, LO)
             else if n_LO > n_signal then
               ([''mixed: LO truncated to length of signal''], signal, ndarray_take n_signal LO)
             else ([], signal, LO))
      in (lg,
          case ndarray_mul signal' LO' of
            Inl e \<Rightarrow> Inl e
          | Inr (FloatArr p) \<Rightarrow> DigitalSignal_new 1024 (Some p) None
          | Inr (ComplexArr p) \<Rightarrow> DigitalSignal_new 1024 (Some (map Re p)) (Some (map Im p))))"

definition BasicMixer_init :: "ndarray option \<Rightarrow> ndarray option \<Rightarrow> log \<times> (py_error + Mixer)" where
  "BasicMixer_init signal LO =
     (case signal of
        None \<Rightarrow> ([], Inr \<lparr>mixer_IF = Some None\<rparr>)
      | Some s \<Rightarrow>
          (case LO of
             None \<Rightarrow> ([], Inr \<lparr>mixer_IF = Some None\<rparr>)
           | Some l \<Rightarrow>
               (let (lg, r) = BasicMixer_mixed s l
                in (lg, case r of Inl e \<Rightarrow> Inl e
                        | Inr IF \<Rightarrow> Inr \<lparr>mixer_IF = Some (Some IF)\<rparr>))))"

text \<open>
  What \<^verbatim>\<open>raise ValueError("..." % (signal.dtype, LO.dtype))\<close> raises: reading \<^verbatim>\<open>dtype\<close>
  of \<^verbatim>\<open>None\<close> fails first.
\<close>

definition raise_wrong_dtype :: "ndarray option \<Rightarrow> ndarray option \<Rightarrow> py_error" where
  "raise_wrong_dtype signal LO =
     (if signal = None \<or> LO = None then AttributeError else ValueError)"

definition SimpleMixer_check_inputs :: "ndarray option \<Rightarrow> ndarray option \<Rightarrow> log \<times> bool option" where
  "SimpleMixer_check_inputs signal LO =
     (case signal of
        None \<Rightarrow> ([], None)
      | Some s \<Rightarrow>
          (case LO of
             None \<Rightarrow> ([], None)
           | Some l \<Rightarrow>
               if \<not> is_float s then
                 ([''_check_inputs: only dtype float signals allowed''], Some False)
               else if \<not> is_float l then
                 ([''_check_inputs: only dtype float LO allowed''], Some False)
               else ([], Some True)))"

definition SimpleMixer_init :: "ndarray option \<Rightarrow> ndarray option \<Rightarrow> log \<times> (py_error + Mixer)" where
  "SimpleMixer_init signal LO =
     (let (lg, ok) = SimpleMixer_check_inputs signal LO
      in if truthy ok then
           (let (lg2, r) = BasicMixer_init signal LO in (lg @ lg2, r))
         else (lg, Inl (raise_wrong_dtype signal LO)))"

definition ParallelMixer_check_inputs :: "ndarray option \<Rightarrow> ndarray option \<Rightarrow> log \<times> bool option" where
  "ParallelMixer_check_inputs signal LO =
     (case signal of
        None \<Rightarrow> ([], None)
      | Some s \<Rightarrow>
          (case LO of
             None \<Rightarrow> ([], None)
           | Some l \<Rightarrow>
               if \<not> is_complex s then
                 ([''_check_inputs: only dtype complex signals allowed''], Some False)
               else if \<not> is_float l then
                 ([''_check_inputs: only dtype float LO allowed''], Some False)
               else ([], Some True)))"

text \<open>
  \<^verbatim>\<open>ParallelMixer.__init__\<close>: the \<^verbatim>\<open>if\<close> on \<^verbatim>\<open>_check_inputs\<close> has no \<^verbatim>\<open>else\<close>, so with
  inputs that fail the test the constructor returns an object on which \<^verbatim>\<open>IF\<close> was never
  assigned.
\<close>

definition ParallelMixer_init :: "ndarray option \<Rightarrow> ndarray option \<Rightarrow> log \<times> (py_error + Mixer)" where
  "ParallelMixer_init signal LO =
     (let (lg, ok) = ParallelMixer_check_inputs signal LO
      in if truthy ok then
           (let (lg2, r) = BasicMixer_init signal LO in (lg @ lg2, r))
         else (lg, Inr \<lparr>mixer_IF = None\<rparr>))"

subsection \<open>Quadrature network and ComplexMixer\<close>

text \<open>
  The two Hilbert transforms come from SciPy and are parameters of the model:
  \<open>hilb\<close> stands for \<^verbatim>\<open>scipy.fftpack.hilbert\<close> on an array of dtype \<^verbatim>\<open>float\<close> (it returns
  an array of dtype \<^verbatim>\<open>float\<close>), \<open>ahilb\<close> for \<^verbatim>\<open>scipy.signal.hilbert\<close> (it returns the
  complex analytic signal). On a complex array \<^verbatim>\<open>scipy.fftpack.hilbert\<close> is
  \<^verbatim>\<open>hilbert(x.real) + 1j*hilbert(x.imag)\<close>.
\<close>

definition fftpack_hilbert_nd :: "(real list \<Rightarrow> py_error + real list) \<Rightarrow> ndarray \<Rightarrow> py_error + ndarray" where
  "fftpack_hilbert_nd hilb x =
     (case x of
        FloatArr xs \<Rightarrow> (case hilb xs of Inl e \<Rightarrow> Inl e | Inr h \<Rightarrow> Inr (FloatArr h))
      | ComplexArr zs \<Rightarrow>
          (case hilb (map Re zs) of
             Inl e \<Rightarrow> Inl e
           | Inr hr \<Rightarrow>
               (case hilb (map Im zs) of
                  Inl e \<Rightarrow> Inl e
                | Inr hi \<Rightarrow>
                    (case np_binop Complex hr hi of
                       Inl e \<Rightarrow> Inl e
                     | Inr h \<Rightarrow> Inr (ComplexArr h)))))"

definition QuadratureSplitter_split :: "(real list \<Rightarrow> py_error + complex list) \<Rightarrow> real list \<Rightarrow> py_error + complex list" where
  "QuadratureSplitter_split ahilb signal =
     (case ahilb signal of
        Inl e \<Rightarrow> Inl e
      | Inr analytic \<Rightarrow> Inr (map (\<lambda>z. z / 2) analytic))"

definition QuadratureHybrid_convert :: "(real list \<Rightarrow> py_error + real list) \<Rightarrow> ndarray \<Rightarrow> py_error + real list \<times> real list" where
  "QuadratureHybrid_convert hilb signal =
     (case fftpack_hilbert_nd hilb signal of
        Inl e \<Rightarrow> Inl e
      | Inr paths \<Rightarrow>
          (case np_binop (+) (ndarray_real signal) (ndarray_imag paths) of
             Inl e \<Rightarrow> Inl e
           | Inr I \<Rightarrow>
               (case np_binop (+) (ndarray_imag signal) (ndarray_real paths) of
                  Inl e \<Rightarrow> Inl e
                | Inr Q \<Rightarrow> Inr (I, Q))))"

definition ComplexMixer_check_inputs :: "ndarray option \<Rightarrow> ndarray option \<Rightarrow> log \<times> bool option" where
  "ComplexMixer_check_inputs signal LO =
     (case signal of
        None \<Rightarrow> ([], None)
      | Some s \<Rightarrow>
          (case LO of
             None \<Rightarrow> ([], None)
           | Some l \<Rightarrow>
               if \<not> is_float s then
                 ([''_check_inputs: only dtype float signals allowed''], Some False)
               else if \<not> is_float l then
                 ([''_check_inputs: only dtype float LO allowed''], Some False)
               else ([], Some True)))"

text \<open>
  \<^verbatim>\<open>ComplexMixer.mixed\<close>: \<^verbatim>\<open>I,Q = QuadratureHybrid().convert(LO)\<close>, \<^verbatim>\<open>qlo = I + 1j*Q\<close>, and
  the basic mixing of the signal with \<open>qlo\<close>; the mode of the result is set to
  \<^verbatim>\<open>"complex"\<close>. It returns \<^verbatim>\<open>None\<close> when the inputs fail the test.
\<close>

definition ComplexMixer_mixed :: "(real list \<Rightarrow> py_error + real list) \<Rightarrow> ndarray \<Rightarrow> ndarray \<Rightarrow> log \<times> (py_error + DigitalSignal option)" where
  "ComplexMixer_mixed hilb signal LO =
     (let (lg, ok) = ComplexMixer_check_inputs (Some signal) (Some LO)
      in if truthy ok then
           (case QuadratureHybrid_convert hilb LO of
              Inl e \<Rightarrow> (lg, Inl e)
            | Inr (I, Q) \<Rightarrow>
                (case np_binop (\<lambda>a b. complex_of_real a + \<i> * complex_of_real b) I Q of
                   Inl e \<Rightarrow> (lg, Inl e)
                 | Inr qlo \<Rightarrow>
                     (let (lg2, r) = BasicMixer_mixed signal (ComplexArr qlo)
                      in (lg @ lg2,
                          case r of
                            Inl e \<Rightarrow> Inl e
                          | Inr IF \<Rightarrow> Inr (Some (IF\<lparr>info_mode := ''complex''\<rparr>))))))
         else (lg, Inr None))"

text \<open>
  \<^verbatim>\<open>ComplexMixer.__init__\<close>: the basic constructor first (or \<^verbatim>\<open>ValueError\<close>), then
  \<^verbatim>\<open>self.IF = self.mixed(signal, LO)\<close> when both inputs are arrays.
\<close>

definition ComplexMixer_init :: "(real list \<Rightarrow> py_error + real list) \<Rightarrow> ndarray option \<Rightarrow> ndarray option \<Rightarrow> log \<times> (py_error + Mixer)" where
  "ComplexMixer_init hilb signal LO =
     (let (lg, ok) = ComplexMixer_check_inputs signal LO
      in if truthy ok then
           (let (lg2, r) = BasicMixer_init signal LO
            in case r of
                 Inl e \<Rightarrow> (lg @ lg2, Inl e)
               | Inr self \<Rightarrow>
                   (case LO of
                      None \<Rightarrow> (lg @ lg2, Inr (self\<lparr>mixer_IF := Some None\<rparr>))
                    | Some l \<Rightarrow>
                        (case signal of
                           None \<Rightarrow> (lg @ lg2, Inr (self\<lparr>mixer_IF := Some None\<rparr>))
                         | Some s \<Rightarrow>
                             (let (lg3, r3) = ComplexMixer_mixed hilb s l
                              in (lg @ lg2 @ lg3,
                                  case r3 of
                                    Inl e \<Rightarrow> Inl e
                                  | Inr IF \<Rightarrow> Inr (self\<lparr>mixer_IF := Some IF\<rparr>))))))
         else (lg, Inl (raise_wrong_dtype signal LO)))"

subsection \<open>The Hilbert transforms of SciPy\<close>

text \<open>
  Models of the two SciPy primitives in exact arithmetic, written from SciPy's
  definitions; they instantiate the parameters \<open>hilb\<close> and \<open>ahilb\<close> at concrete inputs.
  \<open>dft\<close> and \<open>idft\<close> are the discrete Fourier transform and its inverse.
  \<^verbatim>\<open>scipy.signal.hilbert\<close> is \<^verbatim>\<open>ifft(fft(x) * h)\<close>, where \<open>h\<close> is \<open>1\<close> at index \<open>0\<close> (and
  at \<open>N/2\<close> for even \<open>N\<close>), \<open>2\<close> at the other indices below \<open>N/2\<close> and \<open>0\<close> elsewhere; it
  rejects an empty array. \<^verbatim>\<open>scipy.fftpack.hilbert\<close> multiplies the Fourier coefficient
  \<open>j\<close> by \<open>sqrt(-1) * sign(j)\<close>, with the mean and, for even \<open>N\<close>, the Nyquist mode set
  to zero, and returns a real array.
\<close>

definition dft :: "complex list \<Rightarrow> complex list" where
  "dft xs =
     map (\<lambda>k. \<Sum>n<length xs. xs ! n * cis (- (2 * pi * real k * real n / real (length xs))))
         [0..<length xs]"

definition idft :: "complex list \<Rightarrow> complex list" where
  "idft ys =
     map (\<lambda>n. (\<Sum>k<length ys. ys ! k * cis (2 * pi * real k * real n / real (length ys)))
               / of_nat (length ys))
         [0..<length ys]"

definition scipy_signal_hilbert :: "real list \<Rightarrow> py_error + complex list" where
  "scipy_signal_hilbert x =
     (let N = length x
      in if N = 0 then Inl ValueError
         else
           (let Xf = dft (map complex_of_real x);
                h = map (\<lambda>k. if even N then
                                (if k = 0 \<or> k = N div 2 then 1 else if k < N div 2 then 2 else 0)
                              else
                                (if k = 0 then 1 else if k < (N + 1) div 2 then 2 else (0::complex)))
                        [0..<N]
            in Inr (idft (map2 (*) Xf h))))"

definition scipy_fftpack_hilbert :: "real list \<Rightarrow> py_error + real list" where
  "scipy_fftpack_hilbert x =
     (let N = length x;
          w = map (\<lambda>k. if k = 0 \<or> 2 * k = N then 0 else if 2 * k < N then \<i> else - \<i>) [0..<N]
      in Inr (map Re (idft (map2 (*) (dft (map complex_of_real x)) w))))"

subsection \<open>SignalGenerator\<close>

text \<open>\<^verbatim>\<open>str.lower()\<close> on ASCII text and the substring test \<^verbatim>\<open>x in y\<close> on strings.\<close>

definition lower_char :: "char \<Rightarrow> char" where
  "lower_char c =
     (let n = (of_char c :: nat) in if 65 \<le> n \<and> n \<le> 90 then char_of (n + 32) else c)"

definition py_lower :: "string \<Rightarrow> string" where
  "py_lower str = map lower_char str"

fun py_in :: "string \<Rightarrow> string \<Rightarrow> bool" where
  "py_in xs [] = (xs = [])"
| "py_in xs (y # ys) = (prefix xs (y # ys) \<or> py_in xs ys)"

text \<open>
  The attributes of a \<^verbatim>\<open>SignalGenerator\<close>: \<^verbatim>\<open>M\<close>, \<^verbatim>\<open>mode\<close>, \<^verbatim>\<open>components\<close> and \<^verbatim>\<open>S\<close>; the
  index array \<^verbatim>\<open>self.m = NP.arange(M)\<close> is \<open>[0..<M]\<close>. A component \<^verbatim>\<open>comp\<close> is the triple
  \<^verbatim>\<open>(comp[0], comp[1], comp[2])\<close>.
\<close>

record SignalGenerator =
  gen_M :: nat
  gen_mode :: string
  gen_components :: "(real \<times> real \<times> real) list"
  gen_S :: DigitalSignal

fun ndarray_complex :: "ndarray \<Rightarrow> complex list" where
  "ndarray_complex (FloatArr xs) = map complex_of_real xs"
| "ndarray_complex (ComplexArr zs) = zs"

text \<open>
  The three loops over the components; each turn is
  \<^verbatim>\<open>self.S += comp[0]*NP.cos(2*NP.pi*(comp[1]*self.m/M + comp[2]))\<close> in mode real,
  \<^verbatim>\<open>self.S += comp[0]*NP.exp(2*NP.pi*1j*(comp[1]*self.m/M + comp[2]))/2\<close> in mode
  analytic, and in mode complex \<^verbatim>\<open>self.S += s*complex(comp[1],comp[2])\<close> with
  \<^verbatim>\<open>s.real = NP.cos(2*NP.pi*comp[0]*self.m/M)\<close> and
  \<^verbatim>\<open>s.imag = NP.sin(2*NP.pi*comp[0]*self.m/M)\<close>.
\<close>

fun real_loop :: "nat \<Rightarrow> (real \<times> real \<times> real) list \<Rightarrow> real list \<Rightarrow> py_error + real list" where
  "real_loop M [] S = Inr S"
| "real_loop M ((c0, c1, c2) # rest) S =
     (case np_binop (+) S
             (map (\<lambda>m. c0 * cos (2 * pi * (c1 * real m / real M + c2))) [0..<M]) of
        Inl e \<Rightarrow> Inl e
      | Inr S' \<Rightarrow> real_loop M rest S')"

fun analytic_loop :: "nat \<Rightarrow> (real \<times> real \<times> real) list \<Rightarrow> complex list \<Rightarrow> py_error + complex list" where
  "analytic_loop M [] S = Inr S"
| "analytic_loop M ((c0, c1, c2) # rest) S =
     (case np_binop (+) S
             (map (\<lambda>m. complex_of_real c0 * exp (2 * pi * \<i> * (c1 * real m / real M + c2)) / 2)
                  [0..<M]) of
        Inl e \<Rightarrow> Inl e
      | Inr S' \<Rightarrow> analytic_loop M rest S')"

fun complex_loop :: "nat \<Rightarrow> (real \<times> real \<times> real) list \<Rightarrow> complex list \<Rightarrow> py_error + complex list" where
  "complex_loop M [] S = Inr S"
| "complex_loop M ((c0, c1, c2) # rest) S =
     (case np_binop (+) S
             (map (\<lambda>m. Complex (cos (2 * pi * c0 * real m / real M))
                               (sin (2 * pi * c0 * real m / real M)) * Complex c1 c2)
                  [0..<M]) of
        Inl e \<Rightarrow> Inl e
      | Inr S' \<Rightarrow> complex_loop M rest S')"

text \<open>
  \<^verbatim>\<open>SignalGenerator.__init__(mode, M, components)\<close> without noise. The test
  \<^verbatim>\<open>if components:\<close> is false for \<^verbatim>\<open>None\<close> and for the empty list, both given here as
  \<open>[]\<close>. The mode is selected by the substring tests \<^verbatim>\<open>mode.lower() in "real"\<close>,
  \<^verbatim>\<open>in "analytic"\<close>, \<^verbatim>\<open>in "complex"\<close>, in this order.
\<close>

definition SignalGenerator_init :: "string \<Rightarrow> nat \<Rightarrow> (real \<times> real \<times> real) list \<Rightarrow> py_error + SignalGenerator" where
  "SignalGenerator_init mode M components =
     (case DigitalSignal_new M None None of
        Inl e \<Rightarrow> Inl e
      | Inr S0 \<Rightarrow>
          (let self = \<lparr>gen_M = M, gen_mode = mode, gen_components = components, gen_S = S0\<rparr>
           in if components \<noteq> [] then
                (let S1 = S0\<lparr>info_mode := py_lower mode\<rparr>
                 in if py_in (py_lower mode) ''real'' then
                      (case real_loop M components (ndarray_real (samples S1)) of
                         Inl e \<Rightarrow> Inl e
                       | Inr xs \<Rightarrow> Inr (self\<lparr>gen_S := S1\<lparr>samples := FloatArr xs\<rparr>\<rparr>))
                    else if py_in (py_lower mode) ''analytic'' then
                      (case analytic_loop M components (ndarray_complex (samples S1)) of
                         Inl e \<Rightarrow> Inl e
                       | Inr zs \<Rightarrow> Inr (self\<lparr>gen_S := S1\<lparr>samples := ComplexArr zs\<rparr>\<rparr>))
                    else if py_in (py_lower mode) ''complex'' then
                      (case complex_loop M components (ndarray_complex (samples S1)) of
                         Inl e \<Rightarrow> Inl e
                       | Inr zs \<Rightarrow> Inr (self\<lparr>gen_S := S1\<lparr>samples := ComplexArr zs\<rparr>\<rparr>))
                    else Inl ValueError)
              else Inr self))"

text \<open>\<^verbatim>\<open>signal()\<close>: \<^verbatim>\<open>self.S.real\<close> when \<^verbatim>\<open>self.mode == "real"\<close>, else \<^verbatim>\<open>self.S\<close>.\<close>

definition SignalGenerator_signal :: "SignalGenerator \<Rightarrow> ndarray" where
  "SignalGenerator_signal self =
     (if gen_mode self = ''real'' then FloatArr (ndarray_real (samples (gen_S self)))
      else samples (gen_S self))"

subsection \<open>is\_quadrature\<close>

text \<open>
  \<^verbatim>\<open>(signal*signal.conjugate()).imag.all() == 0\<close>: \<^verbatim>\<open>all()\<close> is true when every element
  is non-zero (and on the empty array), and the comparison with \<open>0\<close> negates it.
\<close>

definition is_quadrature :: "ndarray \<Rightarrow> log \<times> bool" where
  "is_quadrature signal =
     (case signal of
        FloatArr xs \<Rightarrow> ([''is_quadrature: dtype float64 signal cannot be in quadrature''], False)
      | ComplexArr zs \<Rightarrow>
          if list_all (\<lambda>v. v \<noteq> 0) (map Im (map2 (*) zs (map cnj zs))) = False then ([], True)
          else ([''is_quadrature: I and Q of LO are not in quadrature phase''], False))"

subsection \<open>The statements of the specification\<close>

text \<open>
  The following definitions follow the words of the specification, not the code; the
  code is compared with them below.

  The generator in mode real: the sum over the components (amplitude, frequency, phase)
  of \<open>amplitude * cos(2 pi (frequency n / N - phase))\<close>.
\<close>

definition spec_real_sample :: "nat \<Rightarrow> (real \<times> real \<times> real) list \<Rightarrow> nat \<Rightarrow> real" where
  "spec_real_sample N comps n =
     sum_list (map (\<lambda>(amplitude, frequency, phase).
                 amplitude * cos (2 * pi * (frequency * real n / real N - phase))) comps)"

text \<open>
  The generator in mode complex: the sum over the components (frequency, Icoef, Qcoef)
  of \<open>Icoef * cos(2 pi frequency n / N) + i * Qcoef * sin(2 pi frequency n / N)\<close>.
\<close>

definition spec_complex_sample :: "nat \<Rightarrow> (real \<times> real \<times> real) list \<Rightarrow> nat \<Rightarrow> complex" where
  "spec_complex_sample N comps n =
     sum_list (map (\<lambda>(frequency, Icoef, Qcoef).
                 complex_of_real (Icoef * cos (2 * pi * frequency * real n / real N))
                 + \<i> * complex_of_real (Qcoef * sin (2 * pi * frequency * real n / real N))) comps)"

text \<open>
  The base mixing: both arrays truncated to the shorter length, multiplied element by
  element, and the product wrapped as a signal of mode real when it is real-valued, and
  of mode complex, with I and Q the real and imaginary parts of the product, when it is
  complex-valued. A truncation is reported by one notice.
\<close>

fun elementwise_product :: "ndarray \<Rightarrow> ndarray \<Rightarrow> ndarray" where
  "elementwise_product (FloatArr xs) (FloatArr ys) = FloatArr (map2 (*) xs ys)"
| "elementwise_product (FloatArr xs) (ComplexArr ws) =
     ComplexArr (map2 (\<lambda>x w. complex_of_real x * w) xs ws)"
| "elementwise_product (ComplexArr zs) (FloatArr ys) =
     ComplexArr (map2 (\<lambda>z y. z * complex_of_real y) zs ys)"
| "elementwise_product (ComplexArr zs) (ComplexArr ws) = ComplexArr (map2 (*) zs ws)"

fun spec_wrap :: "ndarray \<Rightarrow> DigitalSignal" where
  "spec_wrap (FloatArr p) = \<lparr>samples = FloatArr p, info_mode = ''real''\<rparr>"
| "spec_wrap (ComplexArr p) =
     \<lparr>samples = ComplexArr (map2 (\<lambda>I Q. complex_of_real I + \<i> * complex_of_real Q)
                                  (map Re p) (map Im p)),
      info_mode = ''complex''\<rparr>"

definition spec_BaseMix :: "ndarray \<Rightarrow> ndarray \<Rightarrow> DigitalSignal" where
  "spec_BaseMix signal LO =
     (let k = min (ndarray_len signal) (ndarray_len LO)
      in spec_wrap (elementwise_product (ndarray_take k signal) (ndarray_take k LO)))"

definition spec_truncation_notices :: "ndarray \<Rightarrow> ndarray \<Rightarrow> log" where
  "spec_truncation_notices signal LO =
     (if ndarray_len signal = ndarray_len LO then []
      else if ndarray_len LO < ndarray_len signal then
        [''mixed: signal truncated to length of LO'']
      else [''mixed: LO truncated to length of signal''])"

text \<open>
  The predicate of the specification: the signal is complex-valued and the product of
  each sample with its conjugate has imaginary part zero.
\<close>

definition spec_isQuadrature :: "ndarray \<Rightarrow> bool" where
  "spec_isQuadrature signal =
     (case signal of
        FloatArr xs \<Rightarrow> False
      | ComplexArr zs \<Rightarrow> list_all (\<lambda>v. v = 0) (map Im (map2 (*) zs (map cnj zs))))"

text \<open>
  The complex mixing of the specification: the local oscillator is made analytic by the
  Splitter (the analytic signal of \<^verbatim>\<open>scipy.signal.hilbert\<close>, halved) and multiplied
  element by element with the signal.
\<close>

definition spec_ComplexMix :: "(real list \<Rightarrow> py_error + complex list) \<Rightarrow> real list \<Rightarrow> real list \<Rightarrow> py_error + ndarray" where
  "spec_ComplexMix ahilb signal LO =
     (case QuadratureSplitter_split ahilb LO of
        Inl e \<Rightarrow> Inl e
      | Inr analytic_LO \<Rightarrow> Inr (elementwise_product (FloatArr signal) (ComplexArr analytic_LO)))"

text \<open>The samples of the \<^verbatim>\<open>IF\<close> that a mixer constructor leaves, when it leaves a signal.\<close>

fun IF_samples :: "log \<times> (py_error + Mixer) \<Rightarrow> py_error + ndarray option" where
  "IF_samples (lg, Inl e) = Inl e"
| "IF_samples (lg, Inr m) =
     Inr (case mixer_IF m of Some (Some s) \<Rightarrow> Some (samples s) | _ \<Rightarrow> None)"

text \<open>
  What the constructor establishes and every call of \<^verbatim>\<open>next\<close> keeps: \<open>K\<close> is the length
  of the kernel and of the buffer, \<open>oldest\<close> is an index of the buffer, and \<open>oldest\<close> is
  still \<open>0\<close> while fewer than \<open>K\<close> samples are in \<open>data\<close>.
\<close>

definition conv_inv :: "OTFConvolver \<Rightarrow> bool" where
  "conv_inv self =
     (conv_K self = length (conv_F self) \<and> length (circ_buf self) = conv_K self \<and>
      oldest self < conv_K self \<and> (conv_K self \<le> length (data self) \<or> oldest self = 0))"

section \<open>Properties\<close>

subsection \<open>numpy primitives\<close>

lemma np_binop_same_length:
  "length xs = length ys \<Longrightarrow> np_binop f xs ys = Inr (map2 f xs ys)"
  by (simp add: np_binop_def)

lemma np_assign_same_length: "length src = n \<Longrightarrow> np_assign n src = Inr src"
  by (simp add: np_assign_def)

subsection \<open>OTFConvolver\<close>

lemma rotated_read:
  assumes "o' < length buf"
  shows "drop o' buf @ take o' buf = rotate o' buf"
  using assms by (simp add: rotate_drop_take)

lemma sum_list_map2_nth:
  fixes xs ys :: "complex list"
  assumes "length xs = length ys"
  shows "sum_list (map2 (*) xs ys) = (\<Sum>n<length xs. xs ! n * ys ! n)"
proof -
  have "sum_list (map2 (*) xs ys) = (\<Sum>n = 0..<length (map2 (*) xs ys). map2 (*) xs ys ! n)"
    by (rule sum_list_sum_nth)
  also have "\<dots> = (\<Sum>n = 0..<length xs. xs ! n * ys ! n)"
    using assms by (intro sum.cong) auto
  finally show ?thesis by (simp add: lessThan_atLeast0)
qed

lemma kernel_sum_rotated:
  fixes Fk buf :: "complex list"
  assumes "length Fk = length buf" and "o' < length buf"
  shows "sum_list (map2 (*) Fk (drop o' buf @ take o' buf))
         = (\<Sum>n<length Fk. Fk ! n * buf ! ((o' + n) mod length Fk))"
proof -
  have "sum_list (map2 (*) Fk (rotate o' buf)) = (\<Sum>n<length Fk. Fk ! n * rotate o' buf ! n)"
    using assms by (intro sum_list_map2_nth) simp
  also have "\<dots> = (\<Sum>n<length Fk. Fk ! n * buf ! ((o' + n) mod length Fk))"
    using assms by (intro sum.cong) (auto simp: nth_rotate)
  finally show ?thesis using assms by (simp add: rotated_read)
qed

lemma init_no_data:
  "OTFConvolver_init Fk None =
     Inr \<lparr>conv_F = Fk, conv_K = length Fk, circ_buf = replicate (length Fk) 0,
          filtered = [], oldest = 0, data = [], conv_M = None\<rparr>"
  by (simp add: OTFConvolver_init_def)

lemma init_conv_inv:
  assumes "1 \<le> length Fk" and "OTFConvolver_init Fk None = Inr s0"
  shows "conv_inv s0 \<and> conv_F s0 = Fk \<and> data s0 = []"
  using assms by (auto simp: init_no_data conv_inv_def)

lemma convolution_step_inv:
  assumes "conv_inv s"
  shows "convolution_step s x =
     Inr ((\<Sum>n<conv_K s. conv_F s ! n * circ_buf s ! ((oldest s + n) mod conv_K s)),
          s\<lparr>filtered := filtered s @
                 [(\<Sum>n<conv_K s. conv_F s ! n * circ_buf s ! ((oldest s + n) mod conv_K s))],
            oldest := (oldest s + 1) mod conv_K s,
            circ_buf := (circ_buf s)[(oldest s + 1) mod conv_K s := x]\<rparr>)"
proof -
  have len: "length (conv_F s) = length (circ_buf s)" and o: "oldest s < length (circ_buf s)"
    and K: "conv_K s = length (conv_F s)"
    using assms by (simp_all add: conv_inv_def)
  have rd: "np_binop (*) (conv_F s) (drop (oldest s) (circ_buf s) @ take (oldest s) (circ_buf s))
            = Inr (map2 (*) (conv_F s) (drop (oldest s) (circ_buf s) @ take (oldest s) (circ_buf s)))"
    using len o by (intro np_binop_same_length) simp
  have sm: "sum_list (map2 (*) (conv_F s) (drop (oldest s) (circ_buf s) @ take (oldest s) (circ_buf s)))
            = (\<Sum>n<conv_K s. conv_F s ! n * circ_buf s ! ((oldest s + n) mod conv_K s))"
    using kernel_sum_rotated [OF len o] K by simp
  have pos: "0 < conv_K s" using o len K by linarith
  have md: "(oldest s + 1) mod conv_K s < length (circ_buf s)"
    using pos len K by simp
  show ?thesis
    unfolding convolution_step_def rd
    using sm pos md by (simp add: Let_def py_mod_def np_setitem_def)
qed

lemma next_priming:
  assumes "conv_inv s" and "length (data s) + 1 < conv_K s"
  shows "OTFConvolver_next s x =
     Inr (None, s\<lparr>data := data s @ [x], circ_buf := (circ_buf s)[length (data s) + 1 := x],
                  filtered := filtered s @ [0]\<rparr>)"
  using assms by (simp add: OTFConvolver_next_def Let_def np_setitem_def conv_inv_def)

lemma next_primed:
  assumes "conv_inv s" and "\<not> length (data s) + 1 < conv_K s"
  shows "OTFConvolver_next s x =
     Inr (Some (\<Sum>n<conv_K s. conv_F s ! n * circ_buf s ! ((oldest s + n) mod conv_K s)),
          s\<lparr>data := data s @ [x],
            filtered := filtered s @
                 [(\<Sum>n<conv_K s. conv_F s ! n * circ_buf s ! ((oldest s + n) mod conv_K s)),
                  (\<Sum>n<conv_K s. conv_F s ! n * circ_buf s ! ((oldest s + n) mod conv_K s))],
            oldest := (oldest s + 1) mod conv_K s,
            circ_buf := (circ_buf s)[(oldest s + 1) mod conv_K s := x]\<rparr>)"
proof -
  have inv1: "conv_inv (s\<lparr>data := data s @ [x]\<rparr>)"
    using assms(1) by (auto simp: conv_inv_def)
  show ?thesis
    using assms(2) convolution_step_inv [OF inv1, of x]
    by (simp add: OTFConvolver_next_def Let_def)
qed

lemma next_keeps_inv:
  assumes "conv_inv s"
  shows "\<exists>r s'. OTFConvolver_next s x = Inr (r, s') \<and> conv_inv s' \<and> conv_F s' = conv_F s \<and>
                 length (data s') = length (data s) + 1"
proof (cases "length (data s) + 1 < conv_K s")
  case True
  then show ?thesis
    using assms next_priming [OF assms True, of x] by (auto simp: conv_inv_def)
next
  case False
  have pos: "0 < conv_K s" using assms unfolding conv_inv_def by linarith
  have md: "(oldest s + 1) mod conv_K s < conv_K s" using pos by simp
  have ge: "conv_K s \<le> length (data s) + 1" using False by simp
  show ?thesis
    using assms md ge unfolding next_primed [OF assms False, of x] conv_inv_def by simp
qed

lemma next_calls_keep_inv:
  assumes "conv_inv s"
  shows "\<exists>s'. next_calls s xs = Inr s' \<and> conv_inv s' \<and> conv_F s' = conv_F s \<and>
               length (data s') = length (data s) + length xs"
  using assms
proof (induction xs arbitrary: s)
  case Nil
  then show ?case by simp
next
  case (Cons x xs)
  from next_keeps_inv [OF Cons.prems, of x] obtain r s1 where
    st: "OTFConvolver_next s x = Inr (r, s1)" and i1: "conv_inv s1"
    and f1: "conv_F s1 = conv_F s" and d1: "length (data s1) = length (data s) + 1"
    by blast
  from Cons.IH [OF i1] obtain s' where
    "next_calls s1 xs = Inr s'" "conv_inv s'" "conv_F s' = conv_F s1"
    "length (data s') = length (data s1) + length xs"
    by blast
  then show ?case using st f1 d1 by simp
qed

text \<open>
  C1. On a convolver constructed without data from a kernel of length \<open>K \<ge> 1\<close>, every
  sequence of calls of \<^verbatim>\<open>next\<close> succeeds, and the \<open>i\<close>-th call (\<open>i = length xs + 1\<close>, the
  number of samples seen including this one) behaves as follows. If \<open>i < K\<close> it returns
  \<^verbatim>\<open>None\<close>, \<open>oldest\<close> is still \<open>0\<close> and stays so, and the sample is written into the
  circular buffer at index \<open>i\<close>. If \<open>i \<ge> K\<close> it returns the sum over \<open>n < K\<close> of
  \<open>kernel[n] * buffer[(oldest + n) mod K]\<close> over the buffer as it is before this call,
  then \<open>oldest\<close> is advanced by one modulo \<open>K\<close> and the sample is stored at the new
  \<open>oldest\<close>.
\<close>

theorem OTFConvolver_next_ith_call:
  assumes "1 \<le> length Fk"
  shows "\<exists>s0 s. OTFConvolver_init Fk None = Inr s0 \<and> next_calls s0 xs = Inr s \<and>
           conv_F s = Fk \<and> conv_K s = length Fk \<and> length (circ_buf s) = length Fk \<and>
           length (data s) = length xs \<and>
           (if length xs + 1 < length Fk then
              oldest s = 0 \<and>
              OTFConvolver_next s x =
                Inr (None, s\<lparr>data := data s @ [x],
                             circ_buf := (circ_buf s)[length xs + 1 := x],
                             filtered := filtered s @ [0]\<rparr>)
            else
              OTFConvolver_next s x =
                Inr (Some (\<Sum>n<length Fk. Fk ! n * circ_buf s ! ((oldest s + n) mod length Fk)),
                     s\<lparr>data := data s @ [x],
                       filtered := filtered s @
                         [(\<Sum>n<length Fk. Fk ! n * circ_buf s ! ((oldest s + n) mod length Fk)),
                          (\<Sum>n<length Fk. Fk ! n * circ_buf s ! ((oldest s + n) mod length Fk))],
                       oldest := (oldest s + 1) mod length Fk,
                       circ_buf := (circ_buf s)[(oldest s + 1) mod length Fk := x]\<rparr>))"
proof -
  obtain s0 where s0: "OTFConvolver_init Fk None = Inr s0"
    by (simp add: init_no_data)
  from init_conv_inv [OF assms s0] have i0: "conv_inv s0" and f0: "conv_F s0 = Fk"
    and d0: "data s0 = []" by simp_all
  from next_calls_keep_inv [OF i0, of xs] obtain s where
    run: "next_calls s0 xs = Inr s" and inv: "conv_inv s" and f: "conv_F s = Fk"
    and d: "length (data s) = length xs"
    using f0 d0 by auto
  have K: "conv_K s = length Fk" and b: "length (circ_buf s) = length Fk"
    using inv f by (simp_all add: conv_inv_def)
  have step: "if length xs + 1 < length Fk then
              oldest s = 0 \<and>
              OTFConvolver_next s x =
                Inr (None, s\<lparr>data := data s @ [x],
                             circ_buf := (circ_buf s)[length xs + 1 := x],
                             filtered := filtered s @ [0]\<rparr>)
            else
              OTFConvolver_next s x =
                Inr (Some (\<Sum>n<length Fk. Fk ! n * circ_buf s ! ((oldest s + n) mod length Fk)),
                     s\<lparr>data := data s @ [x],
                       filtered := filtered s @
                         [(\<Sum>n<length Fk. Fk ! n * circ_buf s ! ((oldest s + n) mod length Fk)),
                          (\<Sum>n<length Fk. Fk ! n * circ_buf s ! ((oldest s + n) mod length Fk))],
                       oldest := (oldest s + 1) mod length Fk,
                       circ_buf := (circ_buf s)[(oldest s + 1) mod length Fk := x]\<rparr>)"
  proof (cases "length xs + 1 < length Fk")
    case True
    then have lt: "length (data s) + 1 < conv_K s" using d K by simp
    have "oldest s = 0" using inv lt by (auto simp: conv_inv_def)
    then show ?thesis using True next_priming [OF inv lt, of x] d by simp
  next
    case False
    then have ge: "\<not> length (data s) + 1 < conv_K s" using d K by simp
    show ?thesis using False next_primed [OF inv ge, of x] K f by simp
  qed
  from s0 run f K b d step show ?thesis by blast
qed

theorem OTFConvolver_next_ith_call_witness:
  "1 \<le> length [1, 2 :: complex] \<and>
   next_calls \<lparr>conv_F = [1, 2], conv_K = 2, circ_buf = [0, 0], filtered = [], oldest = 0,
               data = [], conv_M = None\<rparr> [5]
     = Inr \<lparr>conv_F = [1, 2], conv_K = 2, circ_buf = [0, 5], filtered = [0], oldest = 0,
            data = [5], conv_M = None\<rparr> \<and>
   OTFConvolver_next \<lparr>conv_F = [1, 2], conv_K = 2, circ_buf = [0, 5], filtered = [0],
                      oldest = 0, data = [5], conv_M = None\<rparr> 7
     = Inr (Some 10, \<lparr>conv_F = [1, 2], conv_K = 2, circ_buf = [0, 7],
                      filtered = [0, 10, 10], oldest = 1, data = [5, 7], conv_M = None\<rparr>)"
  using OTFConvolver_next_ith_call [of "[1, 2]" "[5]" 7]
  by (simp add: init_no_data OTFConvolver_next_def convolution_step_def np_binop_def
      np_setitem_def py_mod_def Let_def)

text \<open>
  C7 as stated fails: constructing a convolver from the empty kernel raises nothing.
\<close>

theorem OTFConvolver_empty_kernel_counterexample:
  "\<not> isl (OTFConvolver_init [] None)"
  by (simp add: OTFConvolver_init_def)

text \<open>
  C7, amended. Construction without data (\<^verbatim>\<open>data\<close> absent or empty) succeeds for every
  kernel, the empty kernel included: there is no test on \<open>K\<close>. The new convolver has
  \<open>K\<close> the length of the kernel, a buffer of \<open>K\<close> zeros, \<open>oldest = 0\<close> and empty
  histories; for the empty kernel \<open>K = 0\<close> and the buffer is empty.
\<close>

theorem OTFConvolver_init_without_data:
  "OTFConvolver_init Fk None =
     Inr \<lparr>conv_F = Fk, conv_K = length Fk, circ_buf = replicate (length Fk) 0,
          filtered = [], oldest = 0, data = [], conv_M = None\<rparr> \<and>
   OTFConvolver_init Fk (Some []) = OTFConvolver_init Fk None \<and>
   OTFConvolver_init [] None =
     Inr \<lparr>conv_F = [], conv_K = 0, circ_buf = [], filtered = [], oldest = 0, data = [],
          conv_M = None\<rparr>"
  by (simp add: OTFConvolver_init_def)

text \<open>
  With the empty kernel the failure comes at the first call of \<^verbatim>\<open>next\<close>, when \<open>oldest\<close>
  is advanced modulo \<open>K = 0\<close>.
\<close>

lemma next_empty_kernel:
  "OTFConvolver_next \<lparr>conv_F = [], conv_K = 0, circ_buf = [], filtered = [], oldest = 0,
                      data = [], conv_M = None\<rparr> x = Inl ZeroDivisionError"
  by (simp add: OTFConvolver_next_def convolution_step_def np_binop_def py_mod_def Let_def)

lemma init_with_data_raises:
  "d \<noteq> [] \<Longrightarrow> OTFConvolver_init Fk (Some d) = Inl NameError"
  by (cases d) (simp_all add: OTFConvolver_init_def upt_rec)

text \<open>
  C8. The constructor called with a kernel of two taps and three samples: the first
  turn of its loop raises \<^verbatim>\<open>NameError\<close>, so no filtered history is produced.
\<close>

theorem OTFConvolver_init_with_data:
  "OTFConvolver_init [1, 1] (Some [1, 2, 3]) = Inl NameError"
  by (simp add: OTFConvolver_init_def upt_rec)

subsection \<open>DigitalSignal\<close>

lemma DigitalSignal_new_I:
  "DigitalSignal_new M (Some p) None = Inr \<lparr>samples = FloatArr p, info_mode = ''real''\<rparr>"
  by (simp add: DigitalSignal_new_def np_assign_def)

lemma DigitalSignal_new_IQ:
  "length i = length q \<Longrightarrow>
   DigitalSignal_new M (Some i) (Some q) =
     Inr \<lparr>samples = ComplexArr (map2 Complex i q), info_mode = ''complex''\<rparr>"
  by (simp add: DigitalSignal_new_def np_assign_def Let_def)

lemma DigitalSignal_new_default:
  "DigitalSignal_new M None None =
     Inr \<lparr>samples = ComplexArr (replicate M 0), info_mode = ''complex''\<rparr>"
  by (simp add: DigitalSignal_new_def)

text \<open>
  With I and Q of different lengths, the longer one of more than one element, the
  constructor raises \<^verbatim>\<open>ValueError\<close>: the arrays are assigned as they were given into an
  array of the shorter length.
\<close>

lemma DigitalSignal_new_unequal:
  assumes "length i \<noteq> length q" and "1 < max (length i) (length q)"
  shows "DigitalSignal_new M (Some i) (Some q) = Inl ValueError"
  using assms
  by (auto simp: DigitalSignal_new_def np_assign_def Let_def min_def max_def split: if_splits)

text \<open>
  C6. I of length 10 and Q of length 7: the constructor raises \<^verbatim>\<open>ValueError\<close> where the
  claim has a signal of length 7.
\<close>

theorem DigitalSignal_new_10_7:
  "DigitalSignal_new 1024 (Some (replicate 10 0)) (Some (replicate 7 0)) = Inl ValueError"
  by (simp add: DigitalSignal_new_def np_assign_def Let_def)

subsection \<open>BasicMixer\<close>

lemma ndarray_mul_same_len:
  "ndarray_len a = ndarray_len b \<Longrightarrow> ndarray_mul a b = Inr (elementwise_product a b)"
  by (cases a; cases b) (simp_all add: np_binop_same_length)

lemma ndarray_len_take: "ndarray_len (ndarray_take n a) = min (ndarray_len a) n"
  by (cases a) simp_all

lemma ndarray_take_all: "ndarray_len a \<le> n \<Longrightarrow> ndarray_take n a = a"
  by (cases a) simp_all

lemma map2_Complex_Re_Im: "map2 Complex (map Re p) (map Im p) = p"
  by (induction p) simp_all

lemma map2_I_plus_iQ:
  "map2 (\<lambda>I Q. complex_of_real I + \<i> * complex_of_real Q) (map Re p) (map Im p) = p"
  by (induction p) (simp_all add: complex_eq_iff)

lemma wrap_product:
  "(case p of FloatArr x \<Rightarrow> DigitalSignal_new 1024 (Some x) None
            | ComplexArr z \<Rightarrow> DigitalSignal_new 1024 (Some (map Re z)) (Some (map Im z)))
   = Inr (spec_wrap p)"
  by (cases p)
    (simp_all add: DigitalSignal_new_I DigitalSignal_new_IQ map2_Complex_Re_Im map2_I_plus_iQ)

lemma BasicMixer_mixed_spec:
  "BasicMixer_mixed a b = (spec_truncation_notices a b, Inr (spec_BaseMix a b))"
proof -
  consider (eq) "ndarray_len a = ndarray_len b" | (gt) "ndarray_len b < ndarray_len a"
    | (lt) "ndarray_len a < ndarray_len b" by linarith
  then show ?thesis
  proof cases
    case eq
    then show ?thesis
      using wrap_product [of "elementwise_product a b"]
      by (simp add: BasicMixer_mixed_def spec_truncation_notices_def spec_BaseMix_def
          ndarray_mul_same_len ndarray_take_all sum.case_distrib)
  next
    case gt
    have "ndarray_len (ndarray_take (ndarray_len b) a) = ndarray_len b"
      using gt by (simp add: ndarray_len_take)
    then have m: "ndarray_mul (ndarray_take (ndarray_len b) a) b
                  = Inr (elementwise_product (ndarray_take (ndarray_len b) a) b)"
      by (rule ndarray_mul_same_len)
    show ?thesis
      using gt wrap_product [of "elementwise_product (ndarray_take (ndarray_len b) a) b"]
      by (simp add: BasicMixer_mixed_def spec_truncation_notices_def spec_BaseMix_def m
          ndarray_take_all min_def)
  next
    case lt
    have "ndarray_len a = ndarray_len (ndarray_take (ndarray_len a) b)"
      using lt by (simp add: ndarray_len_take)
    then have m: "ndarray_mul a (ndarray_take (ndarray_len a) b)
                  = Inr (elementwise_product a (ndarray_take (ndarray_len a) b))"
      by (rule ndarray_mul_same_len)
    show ?thesis
      using lt wrap_product [of "elementwise_product a (ndarray_take (ndarray_len a) b)"]
      by (simp add: BasicMixer_mixed_def spec_truncation_notices_def spec_BaseMix_def m
          ndarray_take_all min_def)
  qed
qed

text \<open>What the base mixing of the specification yields: its length, mode and samples.\<close>

lemma spec_BaseMix_length:
  "ndarray_len (samples (spec_BaseMix a b)) = min (ndarray_len a) (ndarray_len b)"
  by (cases a; cases b) (simp_all add: spec_BaseMix_def Let_def)

lemma spec_BaseMix_mode:
  "info_mode (spec_BaseMix a b) = (if is_float a \<and> is_float b then ''real'' else ''complex'')"
  by (cases a; cases b) (simp_all add: spec_BaseMix_def Let_def)

lemma samples_spec_wrap: "samples (spec_wrap p) = p"
  by (cases p) (simp_all only: spec_wrap.simps map2_I_plus_iQ DigitalSignal.simps)

lemma spec_BaseMix_samples:
  "samples (spec_BaseMix a b) =
     elementwise_product (ndarray_take (min (ndarray_len a) (ndarray_len b)) a)
                         (ndarray_take (min (ndarray_len a) (ndarray_len b)) b)"
  unfolding spec_BaseMix_def Let_def by (rule samples_spec_wrap)

text \<open>
  C3. \<^verbatim>\<open>BasicMixer\<close>: with the signal or the local oscillator absent the IF is \<^verbatim>\<open>None\<close>;
  with two arrays no exception is raised, the IF is the base mixing of the
  specification (both arrays cut to the shorter length, the product element by
  element, mode real for a real product and mode complex, with I and Q the real and
  imaginary parts, for a complex one), and a truncation is reported by exactly one
  logged warning.
\<close>

theorem BasicMixer_IF:
  "BasicMixer_init None LO = ([], Inr \<lparr>mixer_IF = Some None\<rparr>) \<and>
   BasicMixer_init signal None = ([], Inr \<lparr>mixer_IF = Some None\<rparr>) \<and>
   BasicMixer_init (Some a) (Some b) =
     (spec_truncation_notices a b, Inr \<lparr>mixer_IF = Some (Some (spec_BaseMix a b))\<rparr>)"
  by (simp add: BasicMixer_init_def BasicMixer_mixed_spec split: option.splits)

subsection \<open>ParallelMixer\<close>

text \<open>
  With two arrays that fail the test of the dtypes, \<^verbatim>\<open>ParallelMixer\<close> raises nothing and
  \<^verbatim>\<open>IF\<close> is never assigned, while \<^verbatim>\<open>SimpleMixer\<close> raises \<^verbatim>\<open>ValueError\<close> when its own test
  fails.
\<close>

lemma ParallelMixer_init_fails_silently:
  "\<not> is_complex s \<or> \<not> is_float l \<Longrightarrow>
   snd (ParallelMixer_init (Some s) (Some l)) = Inr \<lparr>mixer_IF = None\<rparr>"
  by (auto simp: ParallelMixer_init_def ParallelMixer_check_inputs_def)

lemma SimpleMixer_init_raises:
  "SimpleMixer_init (Some (ComplexArr [1])) (Some (FloatArr [1])) =
     ([''_check_inputs: only dtype float signals allowed''], Inl ValueError)"
  by (simp add: SimpleMixer_init_def SimpleMixer_check_inputs_def raise_wrong_dtype_def)

text \<open>
  C9. \<^verbatim>\<open>ParallelMixer\<close> called with a real signal and a real local oscillator: an error
  is logged, no exception is raised, and the caller receives a mixer on which \<^verbatim>\<open>IF\<close> was
  never assigned.
\<close>

theorem ParallelMixer_init_wrong_dtype:
  "ParallelMixer_init (Some (FloatArr [1])) (Some (FloatArr [1])) =
     ([''_check_inputs: only dtype complex signals allowed''], Inr \<lparr>mixer_IF = None\<rparr>)"
  by (simp add: ParallelMixer_init_def ParallelMixer_check_inputs_def)

subsection \<open>is\_quadrature\<close>

lemma is_quadrature_complex:
  "snd (is_quadrature (ComplexArr zs)) = (zs \<noteq> [])"
  by (cases zs) (simp_all add: is_quadrature_def)

lemma is_quadrature_float: "snd (is_quadrature (FloatArr xs)) = False"
  by (simp add: is_quadrature_def)

lemma spec_isQuadrature_complex: "spec_isQuadrature (ComplexArr zs)"
  by (induction zs) (simp_all add: spec_isQuadrature_def)

text \<open>
  C10. On the empty complex signal \<^verbatim>\<open>is_quadrature\<close> returns \<^verbatim>\<open>False\<close>, while the
  predicate of the specification holds: the signal is complex-valued and no index has a
  non-zero imaginary part.
\<close>

theorem is_quadrature_empty:
  "snd (is_quadrature (ComplexArr [])) = False \<and> spec_isQuadrature (ComplexArr []) = True"
  by (simp add: is_quadrature_def spec_isQuadrature_def)

subsection \<open>ComplexMixer\<close>

text \<open>The two Hilbert transforms of SciPy on an array of one element.\<close>

lemma scipy_fftpack_hilbert_1: "scipy_fftpack_hilbert [x] = Inr [0]"
  by (simp add: scipy_fftpack_hilbert_def dft_def idft_def Let_def)

lemma scipy_signal_hilbert_1: "scipy_signal_hilbert [x] = Inr [complex_of_real x]"
  by (simp add: scipy_signal_hilbert_def dft_def idft_def Let_def)

lemma convert_real:
  assumes "hilb lo = Inr h" and "length h = length lo"
  shows "QuadratureHybrid_convert hilb (FloatArr lo) = Inr (lo, h)"
proof -
  have a: "map2 (+) lo (map (\<lambda>x. 0) h) = lo"
    using assms(2) by (induction lo h rule: list_induct2') simp_all
  have b: "map2 (+) (map (\<lambda>x. 0) lo) h = h"
    using assms(2) by (induction lo h rule: list_induct2') simp_all
  show ?thesis
    using assms a b
    by (simp add: QuadratureHybrid_convert_def fftpack_hilbert_nd_def np_binop_same_length)
qed

text \<open>
  C5 as stated fails. Signal \<open>[1]\<close> and local oscillator \<open>[1]\<close>: the IF of
  \<^verbatim>\<open>ComplexMixer\<close> is \<open>[1]\<close>, the product with the Splitter's analytic local oscillator
  is \<open>[1/2]\<close>.
\<close>

theorem ComplexMixer_Splitter_counterexample:
  "IF_samples (ComplexMixer_init scipy_fftpack_hilbert (Some (FloatArr [1])) (Some (FloatArr [1])))
     = Inr (Some (ComplexArr [1])) \<and>
   spec_ComplexMix scipy_signal_hilbert [1] [1] = Inr (ComplexArr [1 / 2])"
proof -
  have "ComplexMixer_init scipy_fftpack_hilbert (Some (FloatArr [1])) (Some (FloatArr [1])) =
     ([], Inr \<lparr>mixer_IF = Some (Some \<lparr>samples = ComplexArr [1], info_mode = ''complex''\<rparr>)\<rparr>)"
    by (simp add: ComplexMixer_init_def ComplexMixer_check_inputs_def ComplexMixer_mixed_def
        BasicMixer_init_def BasicMixer_mixed_def QuadratureHybrid_convert_def
        fftpack_hilbert_nd_def scipy_fftpack_hilbert_1 np_binop_def DigitalSignal_new_def
        np_assign_def Let_def complex_eq_iff)
  then show ?thesis
    by (simp add: spec_ComplexMix_def QuadratureSplitter_split_def scipy_signal_hilbert_1)
qed

text \<open>
  C5, amended. For a real signal and a real local oscillator of equal length,
  \<^verbatim>\<open>ComplexMixer\<close> raises nothing and logs nothing, and its IF is the product, element by
  element, of the signal with \<open>qlo = I + i Q\<close>, where \<open>(I, Q)\<close> is
  \<^verbatim>\<open>QuadratureHybrid.convert\<close> of the local oscillator: \<open>I\<close> is the local oscillator itself
  and \<open>Q\<close> its \<^verbatim>\<open>scipy.fftpack.hilbert\<close> transform \<open>h\<close>, with no factor one half. The IF
  is complex, of mode complex. The Splitter is not called.
\<close>

theorem ComplexMixer_IF:
  assumes "hilb lo = Inr h" and "length h = length lo" and "length sg = length lo"
  shows "ComplexMixer_init hilb (Some (FloatArr sg)) (Some (FloatArr lo)) =
           ([], Inr \<lparr>mixer_IF = Some (Some
              \<lparr>samples = ComplexArr
                  (map2 (\<lambda>x q. complex_of_real x * q) sg
                     (map2 (\<lambda>a b. complex_of_real a + \<i> * complex_of_real b) lo h)),
               info_mode = ''complex''\<rparr>)\<rparr>)"
proof -
  let ?qlo = "map2 (\<lambda>a b. complex_of_real a + \<i> * complex_of_real b) lo h"
  have q: "np_binop (\<lambda>a b. complex_of_real a + \<i> * complex_of_real b) lo h = Inr ?qlo"
    using assms(2) by (simp add: np_binop_same_length)
  have len: "ndarray_len (FloatArr sg) = ndarray_len (ComplexArr ?qlo)"
    using assms by simp
  have tk: "ndarray_take (ndarray_len (ComplexArr ?qlo)) (FloatArr sg) = FloatArr sg"
    "ndarray_take (ndarray_len (FloatArr sg)) (ComplexArr ?qlo) = ComplexArr ?qlo"
    using len by (simp_all only: ndarray_take_all order_refl)
  have "spec_BaseMix (FloatArr sg) (ComplexArr ?qlo) =
        spec_wrap (elementwise_product (FloatArr sg) (ComplexArr ?qlo))"
    unfolding spec_BaseMix_def Let_def using len tk by (simp only: min.idem)
  also have "\<dots> = \<lparr>samples = ComplexArr (map2 (\<lambda>x q. complex_of_real x * q) sg ?qlo),
                  info_mode = ''complex''\<rparr>"
    by (simp only: elementwise_product.simps spec_wrap.simps map2_I_plus_iQ)
  finally have sb: "spec_BaseMix (FloatArr sg) (ComplexArr ?qlo) =
        \<lparr>samples = ComplexArr (map2 (\<lambda>x q. complex_of_real x * q) sg ?qlo),
         info_mode = ''complex''\<rparr>" .
  have mix: "BasicMixer_mixed (FloatArr sg) (ComplexArr ?qlo) =
        ([], Inr \<lparr>samples = ComplexArr (map2 (\<lambda>x q. complex_of_real x * q) sg ?qlo),
                  info_mode = ''complex''\<rparr>)"
    unfolding BasicMixer_mixed_spec sb spec_truncation_notices_def using len by simp
  have mixed: "ComplexMixer_mixed hilb (FloatArr sg) (FloatArr lo) =
        ([], Inr (Some \<lparr>samples = ComplexArr (map2 (\<lambda>x q. complex_of_real x * q) sg ?qlo),
                  info_mode = ''complex''\<rparr>))"
    using convert_real [of hilb lo h] assms(1,2)
    by (simp add: ComplexMixer_mixed_def ComplexMixer_check_inputs_def q mix)
  have basic: "BasicMixer_init (Some (FloatArr sg)) (Some (FloatArr lo)) =
        ([], Inr \<lparr>mixer_IF = Some (Some (spec_BaseMix (FloatArr sg) (FloatArr lo)))\<rparr>)"
    using assms(3)
    by (simp add: BasicMixer_init_def BasicMixer_mixed_spec spec_truncation_notices_def)
  show ?thesis
    by (simp add: ComplexMixer_init_def ComplexMixer_check_inputs_def basic mixed)
qed

theorem ComplexMixer_IF_witness:
  "scipy_fftpack_hilbert [3] = Inr [0] \<and> length [0::real] = length [3::real] \<and>
   length [2::real] = length [3::real] \<and>
   ComplexMixer_init scipy_fftpack_hilbert (Some (FloatArr [2])) (Some (FloatArr [3])) =
     ([], Inr \<lparr>mixer_IF = Some (Some \<lparr>samples = ComplexArr [6], info_mode = ''complex''\<rparr>)\<rparr>)"
  using ComplexMixer_IF [of scipy_fftpack_hilbert "[3]" "[0]" "[2]"]
  by (simp add: scipy_fftpack_hilbert_1 complex_eq_iff)

subsection \<open>SignalGenerator\<close>

text \<open>
  The loops over the components: each keeps the length of the signal and adds, at every
  index, the terms of all components.
\<close>

lemma real_loop_nth:
  assumes "length S = M"
  shows "\<exists>S'. real_loop M comps S = Inr S' \<and> length S' = M \<and>
           (\<forall>n<M. S' ! n = S ! n +
              sum_list (map (\<lambda>(c0, c1, c2). c0 * cos (2 * pi * (c1 * real n / real M + c2))) comps))"
  using assms
proof (induction comps arbitrary: S)
  case Nil
  then show ?case by simp
next
  case (Cons comp comps)
  obtain c0 c1 c2 where comp: "comp = (c0, c1, c2)" by (cases comp) auto
  let ?t = "map (\<lambda>m. c0 * cos (2 * pi * (c1 * real m / real M + c2))) [0..<M]"
  have st: "np_binop (+) S ?t = Inr (map2 (+) S ?t)"
    using Cons.prems by (simp add: np_binop_same_length)
  have len: "length (map2 (+) S ?t) = M" using Cons.prems by simp
  from Cons.IH [OF len] obtain S' where
    r: "real_loop M comps (map2 (+) S ?t) = Inr S'" and l: "length S' = M"
    and v: "\<forall>n<M. S' ! n = map2 (+) S ?t ! n +
              sum_list (map (\<lambda>(c0, c1, c2). c0 * cos (2 * pi * (c1 * real n / real M + c2))) comps)"
    by blast
  have "\<forall>n<M. S' ! n = S ! n +
      sum_list (map (\<lambda>(c0, c1, c2). c0 * cos (2 * pi * (c1 * real n / real M + c2))) (comp # comps))"
    using v Cons.prems comp by simp
  then show ?case using r l comp st by simp
qed

lemma complex_loop_nth:
  assumes "length S = M"
  shows "\<exists>S'. complex_loop M comps S = Inr S' \<and> length S' = M \<and>
           (\<forall>n<M. S' ! n = S ! n +
              sum_list (map (\<lambda>(c0, c1, c2).
                 Complex (cos (2 * pi * c0 * real n / real M))
                         (sin (2 * pi * c0 * real n / real M)) * Complex c1 c2) comps))"
  using assms
proof (induction comps arbitrary: S)
  case Nil
  then show ?case by simp
next
  case (Cons comp comps)
  obtain c0 c1 c2 where comp: "comp = (c0, c1, c2)" by (cases comp) auto
  let ?t = "map (\<lambda>m. Complex (cos (2 * pi * c0 * real m / real M))
                               (sin (2 * pi * c0 * real m / real M)) * Complex c1 c2) [0..<M]"
  have st: "np_binop (+) S ?t = Inr (map2 (+) S ?t)"
    using Cons.prems by (simp add: np_binop_same_length)
  have len: "length (map2 (+) S ?t) = M" using Cons.prems by simp
  from Cons.IH [OF len] obtain S' where
    r: "complex_loop M comps (map2 (+) S ?t) = Inr S'" and l: "length S' = M"
    and v: "\<forall>n<M. S' ! n = map2 (+) S ?t ! n +
              sum_list (map (\<lambda>(c0, c1, c2).
                 Complex (cos (2 * pi * c0 * real n / real M))
                         (sin (2 * pi * c0 * real n / real M)) * Complex c1 c2) comps)"
    by blast
  have "\<forall>n<M. S' ! n = S ! n +
      sum_list (map (\<lambda>(c0, c1, c2).
                 Complex (cos (2 * pi * c0 * real n / real M))
                         (sin (2 * pi * c0 * real n / real M)) * Complex c1 c2) (comp # comps))"
    using v Cons.prems comp by (simp add: add.assoc)
  then show ?case using r l comp st by simp
qed

lemma complex_component:
  "Complex (cos t) (sin t) * Complex c1 c2 =
   Complex (c1 * cos t - c2 * sin t) (c1 * sin t + c2 * cos t)"
  by (simp add: complex_eq_iff algebra_simps)

lemma mode_complex:
  "py_lower ''complex'' = ''complex''" "\<not> py_in ''complex'' ''real''"
  "\<not> py_in ''complex'' ''analytic''" "py_in ''complex'' ''complex''"
  by (code_simp, simp_all)

lemma mode_real: "py_lower ''real'' = ''real''" "py_in ''real'' ''real''"
  by (code_simp, simp)

text \<open>
  C2 as stated fails. One component of frequency 0 with I-coefficient 0 and
  Q-coefficient 1, one sample: the code yields the sample \<open>i\<close>, the sum of the claim is
  \<open>0 * cos 0 + i * 1 * sin 0 = 0\<close>.
\<close>

theorem SignalGenerator_complex_counterexample:
  "map_sum id SignalGenerator_signal (SignalGenerator_init ''complex'' 1 [(0, 0, 1)])
     = Inr (ComplexArr [\<i>]) \<and>
   spec_complex_sample 1 [(0, 0, 1)] 0 = 0"
  by (simp add: SignalGenerator_init_def DigitalSignal_new_default mode_complex Let_def
      np_binop_def SignalGenerator_signal_def spec_complex_sample_def complex_eq_iff)

text \<open>
  C2, amended. In mode complex every component (frequency, Icoef, Qcoef) contributes
  the complex product \<open>(Icoef + i Qcoef) * (cos t + i sin t)\<close> with
  \<open>t = 2 pi frequency n / N\<close>: the construction succeeds, the signal has \<open>N\<close> complex
  samples, and the sample at index \<open>n < N\<close> is the sum over the components of
  \<open>(Icoef cos t - Qcoef sin t) + i (Icoef sin t + Qcoef cos t)\<close>.
\<close>

theorem SignalGenerator_complex_sample:
  assumes "n < N"
  shows "\<exists>g zs. SignalGenerator_init ''complex'' N comps = Inr g \<and>
           SignalGenerator_signal g = ComplexArr zs \<and> length zs = N \<and>
           zs ! n = sum_list (map (\<lambda>(frequency, Icoef, Qcoef).
                      Complex (Icoef * cos (2 * pi * frequency * real n / real N)
                                 - Qcoef * sin (2 * pi * frequency * real n / real N))
                              (Icoef * sin (2 * pi * frequency * real n / real N)
                                 + Qcoef * cos (2 * pi * frequency * real n / real N))) comps)"
proof (cases "comps = []")
  case True
  then show ?thesis
    using assms
    by (simp add: SignalGenerator_init_def DigitalSignal_new_default SignalGenerator_signal_def)
next
  case False
  from complex_loop_nth [of "replicate N 0" N comps] obtain S' where
    r: "complex_loop N comps (replicate N 0) = Inr S'" and l: "length S' = N"
    and v: "\<forall>n<N. S' ! n = replicate N 0 ! n +
              sum_list (map (\<lambda>(c0, c1, c2).
                 Complex (cos (2 * pi * c0 * real n / real N))
                         (sin (2 * pi * c0 * real n / real N)) * Complex c1 c2) comps)"
    by auto
  have val: "S' ! n = sum_list (map (\<lambda>(frequency, Icoef, Qcoef).
                      Complex (Icoef * cos (2 * pi * frequency * real n / real N)
                                 - Qcoef * sin (2 * pi * frequency * real n / real N))
                              (Icoef * sin (2 * pi * frequency * real n / real N)
                                 + Qcoef * cos (2 * pi * frequency * real n / real N))) comps)"
    using v assms by (simp add: complex_component)
  have "SignalGenerator_init ''complex'' N comps =
          Inr \<lparr>gen_M = N, gen_mode = ''complex'', gen_components = comps,
               gen_S = \<lparr>samples = ComplexArr S', info_mode = ''complex''\<rparr>\<rparr>"
    using False r
    by (simp add: SignalGenerator_init_def DigitalSignal_new_default mode_complex Let_def)
  then show ?thesis
    using l val by (simp add: SignalGenerator_signal_def)
qed

theorem SignalGenerator_complex_sample_witness:
  "(1::nat) < 2 \<and>
   (case SignalGenerator_init ''complex'' 2 [(1, 2, 3)] of
      Inl e \<Rightarrow> False
    | Inr g \<Rightarrow> ndarray_complex (SignalGenerator_signal g) ! 1 = Complex (- 2) (- 3))"
  using SignalGenerator_complex_sample [of 1 2 "[(1, 2, 3)]"]
  by auto

text \<open>
  In mode real the construction succeeds, the signal has \<open>N\<close> real samples, and the
  sample at index \<open>n < N\<close> is the sum over the components of
  \<open>amplitude * cos(2 pi (frequency n / N + phase))\<close>: the phase is added.
\<close>

lemma SignalGenerator_real_sample:
  assumes "n < N"
  shows "\<exists>g xs. SignalGenerator_init ''real'' N comps = Inr g \<and>
           SignalGenerator_signal g = FloatArr xs \<and> length xs = N \<and>
           xs ! n = sum_list (map (\<lambda>(amplitude, frequency, phase).
                      amplitude * cos (2 * pi * (frequency * real n / real N + phase))) comps)"
proof (cases "comps = []")
  case True
  then show ?thesis
    using assms
    by (simp add: SignalGenerator_init_def DigitalSignal_new_default SignalGenerator_signal_def)
next
  case False
  from real_loop_nth [of "replicate N 0" N comps] obtain S' where
    r: "real_loop N comps (replicate N 0) = Inr S'" and l: "length S' = N"
    and v: "\<forall>n<N. S' ! n = replicate N 0 ! n +
              sum_list (map (\<lambda>(c0, c1, c2). c0 * cos (2 * pi * (c1 * real n / real N + c2))) comps)"
    by auto
  have "SignalGenerator_init ''real'' N comps =
          Inr \<lparr>gen_M = N, gen_mode = ''real'', gen_components = comps,
               gen_S = \<lparr>samples = FloatArr S', info_mode = ''real''\<rparr>\<rparr>"
    using False r
    by (simp add: SignalGenerator_init_def DigitalSignal_new_default mode_real Let_def)
  then show ?thesis
    using l v assms by (simp add: SignalGenerator_signal_def)
qed

lemma cos_3pi_half: "cos (3 * pi / 2) = 0"
  using cos_3over2_pi by (simp add: mult.commute)

lemma replicate_4: "replicate 4 x = [x, x, x, x]"
  by (simp add: eval_nat_numeral)

text \<open>
  C4. One component of amplitude 1, frequency 1 and phase one quarter of a cycle, four
  samples: the code yields the real samples \<open>0, -1, 0, 1\<close>, so \<open>-1\<close> at index 1, where
  the sum of the claim is \<open>cos(2 pi (1/4 - 1/4)) = 1\<close>.
\<close>

theorem SignalGenerator_real_phase_sign:
  "map_sum id SignalGenerator_signal (SignalGenerator_init ''real'' 4 [(1, 1, 1 / 4)])
     = Inr (FloatArr [0, - 1, 0, 1]) \<and>
   spec_real_sample 4 [(1, 1, 1 / 4)] 1 = 1"
  by (simp add: SignalGenerator_init_def DigitalSignal_new_default mode_real Let_def
      np_binop_def SignalGenerator_signal_def spec_real_sample_def upt_rec cos_3pi_half
      replicate_4)

end
